theory Spec2Isabelle
  imports Main
begin

section \<open>JavaScript values and strings\<close>

text \<open>
  The examples are JavaScript and TypeScript; TypeScript types are erased when the code
  runs, so both are modelled over the same run-time values. A field of \<open>userData\<close>
  is either absent (\<open>undefined\<close>, modelled as \<open>None\<close>) or a string. A string is a
  list of code units; the model covers the code units U+0000 to U+00FF, one
  \<^typ>\<open>char\<close> each, so that \<open>length\<close> is the \<open>.length\<close> of the source.
\<close>

type_synonym js_value = "string option"

definition truthy :: "js_value \<Rightarrow> bool" where
  \<comment> \<open>\<open>undefined\<close> and the empty string are falsy, every other string is truthy\<close>
  "truthy v = (case v of None \<Rightarrow> False | Some s \<Rightarrow> s \<noteq> [])"

definition falsy_or_shorter :: "js_value \<Rightarrow> int \<Rightarrow> bool" where
  \<comment> \<open>\<open>!value || value.length < minLength\<close>\<close>
  "falsy_or_shorter v n =
     (case v of None \<Rightarrow> True | Some s \<Rightarrow> s = [] \<or> int (length s) < n)"

definition truthy_and_shorter :: "js_value \<Rightarrow> int \<Rightarrow> bool" where
  \<comment> \<open>\<open>value && value.length < minLength\<close>\<close>
  "truthy_and_shorter v n =
     (case v of None \<Rightarrow> False | Some s \<Rightarrow> s \<noteq> [] \<and> int (length s) < n)"

definition or_empty :: "js_value \<Rightarrow> js_value" where
  \<comment> \<open>\<open>value || ""\<close>\<close>
  "or_empty v = (if truthy v then v else Some [])"

definition template :: "js_value \<Rightarrow> string" where
  \<comment> \<open>a value interpolated into a template literal\<close>
  "template v = (case v of None \<Rightarrow> ''undefined'' | Some s \<Rightarrow> s)"

definition code_unit :: "char \<Rightarrow> nat" where
  "code_unit c = of_char c"

definition in_range :: "char \<Rightarrow> char \<Rightarrow> char \<Rightarrow> bool" where
  "in_range lo hi c = (code_unit lo \<le> code_unit c \<and> code_unit c \<le> code_unit hi)"

definition lower_unit :: "char \<Rightarrow> char" where
  \<comment> \<open>\<open>toLowerCase\<close> on one code unit below U+0100: A-Z, and the Latin-1 capitals
      U+00C0 to U+00DE without the multiplication sign U+00D7\<close>
  "lower_unit c =
     (let n = code_unit c in
      if (65 \<le> n \<and> n \<le> 90) \<or> (192 \<le> n \<and> n \<le> 222 \<and> n \<noteq> 215)
      then char_of (n + 32) else c)"

definition toLowerCase :: "string \<Rightarrow> string" where
  "toLowerCase s = map lower_unit s"

definition white_space :: "char \<Rightarrow> bool" where
  \<comment> \<open>the WhiteSpace and LineTerminator code units below U+0100\<close>
  "white_space c = (code_unit c \<in> {9, 10, 11, 12, 13, 32, 160})"

definition trim :: "string \<Rightarrow> string" where
  "trim s = rev (dropWhile white_space (rev (dropWhile white_space s)))"

section \<open>Regular expressions\<close>

text \<open>
  The TypeScript example tests the email against the literal
  \<^verbatim>\<open>/^[a-zA-Z0-9._%+-]+@[a-zA-Z0-9.-]+\.[a-zA-Z]{2,}$/\<close>. The pattern is anchored at
  both ends and has no flags, so \<open>test\<close> decides whether the whole string belongs to
  the language of the expression. Character classes are lists of inclusive ranges.
\<close>

datatype regexp =
    Fail
  | Empty
  | Class "(char \<times> char) list"
  | Seq regexp regexp
  | Alt regexp regexp
  | Many regexp

fun in_class :: "(char \<times> char) list \<Rightarrow> char \<Rightarrow> bool" where
  "in_class [] c = False"
| "in_class ((lo, hi) # rs) c = (in_range lo hi c \<or> in_class rs c)"

fun accepts_empty :: "regexp \<Rightarrow> bool" where
  "accepts_empty Fail = False"
| "accepts_empty Empty = True"
| "accepts_empty (Class rs) = False"
| "accepts_empty (Seq r s) = (accepts_empty r \<and> accepts_empty s)"
| "accepts_empty (Alt r s) = (accepts_empty r \<or> accepts_empty s)"
| "accepts_empty (Many r) = True"

fun after :: "char \<Rightarrow> regexp \<Rightarrow> regexp" where
  "after c Fail = Fail"
| "after c Empty = Fail"
| "after c (Class rs) = (if in_class rs c then Empty else Fail)"
| "after c (Seq r s) =
     (if accepts_empty r then Alt (Seq (after c r) s) (after c s)
      else Seq (after c r) s)"
| "after c (Alt r s) = Alt (after c r) (after c s)"
| "after c (Many r) = Seq (after c r) (Many r)"

fun regexp_test :: "regexp \<Rightarrow> string \<Rightarrow> bool" where
  "regexp_test r [] = accepts_empty r"
| "regexp_test r (c # cs) = regexp_test (after c r) cs"

definition one_or_more :: "regexp \<Rightarrow> regexp" where
  \<comment> \<open>\<open>r+\<close>\<close>
  "one_or_more r = Seq r (Many r)"

definition two_or_more :: "regexp \<Rightarrow> regexp" where
  \<comment> \<open>\<open>r{2,}\<close>\<close>
  "two_or_more r = Seq r (Seq r (Many r))"

definition single :: "char \<Rightarrow> regexp" where
  "single c = Class [(c, c)]"

definition default_emailPattern :: regexp where
  "default_emailPattern =
     Seq (one_or_more (Class [(CHR ''a'', CHR ''z''), (CHR ''A'', CHR ''Z''),
            (CHR ''0'', CHR ''9''), (CHR ''.'', CHR ''.''), (CHR ''_'', CHR ''_''),
            (CHR ''%'', CHR ''%''), (CHR ''+'', CHR ''+''), (CHR ''-'', CHR ''-'')]))
    (Seq (single CHR ''@'')
    (Seq (one_or_more (Class [(CHR ''a'', CHR ''z''), (CHR ''A'', CHR ''Z''),
            (CHR ''0'', CHR ''9''), (CHR ''.'', CHR ''.''), (CHR ''-'', CHR ''-'')]))
    (Seq (single CHR ''.'')
         (two_or_more (Class [(CHR ''a'', CHR ''z''), (CHR ''A'', CHR ''Z'')])))))"

section \<open>Errors and the outside world\<close>

datatype js_error =
    Error string     \<comment> \<open>\<open>throw new Error(message)\<close>\<close>
  | TypeError        \<comment> \<open>a method called on \<open>undefined\<close>\<close>

datatype level = Log | Info | Warn | Err

text \<open>
  What the examples reach outside their own values: the console, the random number
  generator, the clock, and the static \<open>isEnabled\<close> flag of the TypeScript
  \<open>UserLogger\<close>. \<open>random_ids w k\<close> is the string that the \<open>k\<close>-th evaluation of
  \<^verbatim>\<open>Math.random().toString(36).substr(2, 9)\<close> gives, \<open>clock w k\<close> the string that the
  \<open>k\<close>-th evaluation of \<^verbatim>\<open>new Date().toISOString()\<close> gives.
\<close>

record world =
  console :: "(level \<times> string) list"
  random_ids :: "nat \<Rightarrow> string"
  random_calls :: nat
  clock :: "nat \<Rightarrow> string"
  clock_calls :: nat
  isEnabled :: bool

definition console_out :: "level \<Rightarrow> string \<Rightarrow> world \<Rightarrow> world" where
  "console_out l s w = w\<lparr>console := console w @ [(l, s)]\<rparr>"

definition console_log :: "string \<Rightarrow> world \<Rightarrow> world" where
  "console_log s w = console_out Log s w"

definition generateId :: "world \<Rightarrow> string \<times> world" where
  "generateId w = (random_ids w (random_calls w), w\<lparr>random_calls := Suc (random_calls w)\<rparr>)"

definition getCurrentTimestamp :: "world \<Rightarrow> string \<times> world" where
  "getCurrentTimestamp w = (clock w (clock_calls w), w\<lparr>clock_calls := Suc (clock_calls w)\<rparr>)"

section \<open>The user-management example\<close>

record UserData =
  email :: js_value
  name :: js_value
  password :: js_value

record User = UserData +
  id' :: string
  createdAt :: js_value
  updatedAt :: string

type_synonym 'a outcome = "(js_error + 'a) \<times> world"

definition created_line :: "js_value \<Rightarrow> js_value \<Rightarrow> string" where
  \<comment> \<open>\<^verbatim>\<open>`User created: ${user.name} (${user.email})`\<close>\<close>
  "created_line n e = ''User created: '' @ template n @ '' ('' @ template e @ '')''"

definition updated_line :: "js_value \<Rightarrow> js_value \<Rightarrow> string" where
  \<comment> \<open>\<^verbatim>\<open>`User updated: ${user.name} (${user.email})`\<close>\<close>
  "updated_line n e = ''User updated: '' @ template n @ '' ('' @ template e @ '')''"

subsection \<open>FormattingUtils (both languages)\<close>

definition formatEmail :: "js_value \<Rightarrow> js_error + string" where
  "formatEmail v = (case v of None \<Rightarrow> Inl TypeError | Some s \<Rightarrow> Inr (trim (toLowerCase s)))"

definition formatName :: "js_value \<Rightarrow> js_error + string" where
  "formatName v = (case v of None \<Rightarrow> Inl TypeError | Some s \<Rightarrow> Inr (trim s))"

subsection \<open>UserManagerWET (the same text in both languages)\<close>

definition WET_createUser :: "UserData \<Rightarrow> world \<Rightarrow> User outcome" where
  "WET_createUser userData w =
     (if falsy_or_shorter (email userData) 5 then (Inl (Error ''Invalid email''), w)
      else if falsy_or_shorter (name userData) 2 then (Inl (Error ''Invalid name''), w)
      else if falsy_or_shorter (password userData) 8
        then (Inl (Error ''Password too short''), w)
      else
        (case generateId w of (i, w1) \<Rightarrow>
         (case formatEmail (email userData) of Inl x \<Rightarrow> (Inl x, w1) | Inr e \<Rightarrow>
         (case formatName (name userData) of Inl x \<Rightarrow> (Inl x, w1) | Inr n \<Rightarrow>
         (case getCurrentTimestamp w1 of (c, w2) \<Rightarrow>
         (case getCurrentTimestamp w2 of (u, w3) \<Rightarrow>
            (Inr \<lparr>email = Some e, name = Some n, password = password userData,
                  id' = i, createdAt = Some c, updatedAt = u\<rparr>,
             console_log (created_line (Some n) (Some e)) w3)))))))"

definition WET_updateUser :: "string \<Rightarrow> UserData \<Rightarrow> world \<Rightarrow> User outcome" where
  "WET_updateUser userId userData w =
     (if falsy_or_shorter (email userData) 5 then (Inl (Error ''Invalid email''), w)
      else if falsy_or_shorter (name userData) 2 then (Inl (Error ''Invalid name''), w)
      else if truthy_and_shorter (password userData) 8
        then (Inl (Error ''Password too short''), w)
      else
        (case formatEmail (email userData) of Inl x \<Rightarrow> (Inl x, w) | Inr e \<Rightarrow>
         (case formatName (name userData) of Inl x \<Rightarrow> (Inl x, w) | Inr n \<Rightarrow>
         (case getCurrentTimestamp w of (u, w1) \<Rightarrow>
            (Inr \<lparr>email = Some e, name = Some n, password = password userData,
                  id' = userId, createdAt = None, updatedAt = u\<rparr>,
             console_log (updated_line (Some n) (Some e)) w1)))))"

subsection \<open>JavaScript: VALIDATION_RULES, ValidationUtils, UserLogger, UserManagerDRY\<close>

definition EMAIL_MIN_LENGTH :: int where "EMAIL_MIN_LENGTH = 5"
definition NAME_MIN_LENGTH :: int where "NAME_MIN_LENGTH = 2"
definition PASSWORD_MIN_LENGTH :: int where "PASSWORD_MIN_LENGTH = 8"

definition validateEmail :: "js_value \<Rightarrow> js_error + unit" where
  "validateEmail e =
     (if falsy_or_shorter e EMAIL_MIN_LENGTH then Inl (Error ''Invalid email'') else Inr ())"

definition validateName :: "js_value \<Rightarrow> js_error + unit" where
  "validateName n =
     (if falsy_or_shorter n NAME_MIN_LENGTH then Inl (Error ''Invalid name'') else Inr ())"

definition validatePassword :: "js_value \<Rightarrow> bool \<Rightarrow> js_error + unit" where
  "validatePassword p required =
     (if required \<and> falsy_or_shorter p PASSWORD_MIN_LENGTH
        then Inl (Error ''Password too short'')
      else if \<not> required \<and> truthy_and_shorter p PASSWORD_MIN_LENGTH
        then Inl (Error ''Password too short'')
      else Inr ())"

definition logUserCreated :: "User \<Rightarrow> world \<Rightarrow> world" where
  "logUserCreated user w = console_log (created_line (name user) (email user)) w"

definition logUserUpdated :: "User \<Rightarrow> world \<Rightarrow> world" where
  "logUserUpdated user w = console_log (updated_line (name user) (email user)) w"

definition validateUserData :: "UserData \<Rightarrow> bool \<Rightarrow> js_error + unit" where
  "validateUserData userData isUpdate =
     (case validateEmail (email userData) of Inl x \<Rightarrow> Inl x | Inr _ \<Rightarrow>
      (case validateName (name userData) of Inl x \<Rightarrow> Inl x | Inr _ \<Rightarrow>
       validatePassword (password userData) (\<not> isUpdate)))"

definition formatUserData :: "UserData \<Rightarrow> js_value \<Rightarrow> world \<Rightarrow> User outcome" where
  \<comment> \<open>the object literal is evaluated field by field: \<open>id\<close>, \<open>email\<close>, \<open>name\<close>,
      \<open>password\<close>, the spread that may add \<open>createdAt\<close>, \<open>updatedAt\<close>\<close>
  "formatUserData userData userId w =
     (case getCurrentTimestamp w of (timestamp, w1) \<Rightarrow>
      (case (if truthy userId then (template userId, w1) else generateId w1) of (i, w2) \<Rightarrow>
       (case formatEmail (email userData) of Inl x \<Rightarrow> (Inl x, w2) | Inr e \<Rightarrow>
        (case formatName (name userData) of Inl x \<Rightarrow> (Inl x, w2) | Inr n \<Rightarrow>
           (Inr \<lparr>email = Some e, name = Some n, password = password userData,
                 id' = i,
                 createdAt = (if truthy userId then None else Some timestamp),
                 updatedAt = timestamp\<rparr>, w2)))))"

definition DRY_createUser :: "UserData \<Rightarrow> world \<Rightarrow> User outcome" where
  "DRY_createUser userData w =
     (case validateUserData userData False of Inl x \<Rightarrow> (Inl x, w) | Inr _ \<Rightarrow>
      (case formatUserData userData None w of
         (Inl x, w1) \<Rightarrow> (Inl x, w1)
       | (Inr user, w1) \<Rightarrow> (Inr user, logUserCreated user w1)))"

definition DRY_updateUser :: "string \<Rightarrow> UserData \<Rightarrow> world \<Rightarrow> User outcome" where
  "DRY_updateUser userId userData w =
     (case validateUserData userData True of Inl x \<Rightarrow> (Inl x, w) | Inr _ \<Rightarrow>
      (case formatUserData userData (Some userId) w of
         (Inl x, w1) \<Rightarrow> (Inl x, w1)
       | (Inr updatedUser, w1) \<Rightarrow> (Inr updatedUser, logUserUpdated updatedUser w1)))"

subsection \<open>The configuration of ConfigurableUserManager\<close>

text \<open>
  One configuration record serves both languages. The JavaScript class has no
  \<open>emailPattern\<close> and no \<open>level\<close>, and its methods below read neither field. The
  constructor lays the given settings over the defaults, key by key; a setting that is
  not given is \<open>None\<close>. An \<open>emailPattern\<close> is a pattern without flags, as the
  literal of the source is: \<open>test\<close> on it depends on the string alone. A \<open>RegExp\<close>
  with the flag \<open>g\<close> or \<open>y\<close> also has a \<open>lastIndex\<close> that \<open>test\<close> reads and
  writes; the model has no such patterns, and the properties that relate two calls are
  stated for managers that use the pattern of the source.
\<close>

record ValidationConfig =
  emailMinLength :: int
  nameMinLength :: int
  passwordMinLength :: int
  emailPattern :: regexp

record LoggingConfig =
  enabled :: bool
  level :: level

record UserManagerConfig =
  validation :: ValidationConfig
  logging :: LoggingConfig

record PartialConfig =
  given_emailMinLength :: "int option"
  given_nameMinLength :: "int option"
  given_passwordMinLength :: "int option"
  given_emailPattern :: "regexp option"
  given_enabled :: "bool option"
  given_level :: "level option"

definition no_config :: PartialConfig where
  \<comment> \<open>\<open>{}\<close>, the constructor's default argument\<close>
  "no_config = \<lparr>given_emailMinLength = None, given_nameMinLength = None,
     given_passwordMinLength = None, given_emailPattern = None,
     given_enabled = None, given_level = None\<rparr>"

definition over :: "'a \<Rightarrow> 'a option \<Rightarrow> 'a" where
  "over d g = (case g of None \<Rightarrow> d | Some v \<Rightarrow> v)"

definition ConfigurableUserManager :: "PartialConfig \<Rightarrow> UserManagerConfig" where
  "ConfigurableUserManager config =
     \<lparr>validation = \<lparr>emailMinLength = over 5 (given_emailMinLength config),
                     nameMinLength = over 2 (given_nameMinLength config),
                     passwordMinLength = over 8 (given_passwordMinLength config),
                     emailPattern = over default_emailPattern (given_emailPattern config)\<rparr>,
      logging = \<lparr>enabled = over True (given_enabled config),
                  level = over Info (given_level config)\<rparr>\<rparr>"

subsection \<open>JavaScript: ConfigurableUserManager\<close>

definition validate :: "string \<Rightarrow> js_value \<Rightarrow> int \<Rightarrow> js_error + unit" where
  "validate field v minLength =
     (if falsy_or_shorter v minLength then Inl (Error (''Invalid '' @ field)) else Inr ())"

definition Configurable_validateUserData ::
  "UserManagerConfig \<Rightarrow> UserData \<Rightarrow> bool \<Rightarrow> js_error + unit" where
  "Configurable_validateUserData this userData isUpdate =
     (case validate ''email'' (email userData) (emailMinLength (validation this)) of
        Inl x \<Rightarrow> Inl x | Inr _ \<Rightarrow>
      (case validate ''name'' (name userData) (nameMinLength (validation this)) of
         Inl x \<Rightarrow> Inl x | Inr _ \<Rightarrow>
       (if \<not> isUpdate \<or> truthy (password userData)
        then validate ''password'' (password userData) (passwordMinLength (validation this))
        else Inr ())))"

definition Configurable_log :: "UserManagerConfig \<Rightarrow> string \<Rightarrow> world \<Rightarrow> world" where
  "Configurable_log this message w =
     (if enabled (logging this) then console_log message w else w)"

definition Configurable_createUser :: "UserManagerConfig \<Rightarrow> UserData \<Rightarrow> world \<Rightarrow> User outcome" where
  "Configurable_createUser this userData w =
     (case Configurable_validateUserData this userData False of
        Inl x \<Rightarrow> (Inl x, w) | Inr _ \<Rightarrow>
      (case formatUserData userData None w of
         (Inl x, w1) \<Rightarrow> (Inl x, w1)
       | (Inr user, w1) \<Rightarrow>
           (Inr user, Configurable_log this (created_line (name user) (email user)) w1)))"

definition Configurable_updateUser ::
  "UserManagerConfig \<Rightarrow> string \<Rightarrow> UserData \<Rightarrow> world \<Rightarrow> User outcome" where
  "Configurable_updateUser this userId userData w =
     (case Configurable_validateUserData this userData True of
        Inl x \<Rightarrow> (Inl x, w) | Inr _ \<Rightarrow>
      (case formatUserData userData (Some userId) w of
         (Inl x, w1) \<Rightarrow> (Inl x, w1)
       | (Inr updatedUser, w1) \<Rightarrow>
           (Inr updatedUser,
            Configurable_log this
              (updated_line (name updatedUser) (email updatedUser)) w1)))"

subsection \<open>TypeScript: VALIDATION_RULES, ValidationUtils, UserLogger\<close>

definition VALIDATION_RULES :: ValidationConfig where
  "VALIDATION_RULES = \<lparr>emailMinLength = 5, nameMinLength = 2, passwordMinLength = 8,
     emailPattern = default_emailPattern\<rparr>"

definition validateEmail_ts :: "js_value \<Rightarrow> js_error + unit" where
  \<comment> \<open>\<open>test\<close> converts its argument to a string, as a template literal does\<close>
  "validateEmail_ts e =
     (if falsy_or_shorter e (emailMinLength VALIDATION_RULES)
        then Inl (Error ''Invalid email'')
      else if \<not> regexp_test (emailPattern VALIDATION_RULES) (template e)
        then Inl (Error ''Invalid email format'')
      else Inr ())"

definition validateName_ts :: "js_value \<Rightarrow> js_error + unit" where
  "validateName_ts n =
     (if falsy_or_shorter n (nameMinLength VALIDATION_RULES)
        then Inl (Error ''Invalid name'')
      else Inr ())"

definition validatePassword_ts :: "js_value \<Rightarrow> bool \<Rightarrow> js_error + unit" where
  "validatePassword_ts p required =
     (if required \<and> falsy_or_shorter p (passwordMinLength VALIDATION_RULES)
        then Inl (Error ''Password too short'')
      else if \<not> required \<and> truthy_and_shorter p (passwordMinLength VALIDATION_RULES)
        then Inl (Error ''Password too short'')
      else Inr ())"


definition logUserCreated_ts :: "User \<Rightarrow> world \<Rightarrow> world" where
  "logUserCreated_ts user w =
     (if isEnabled w then console_log (created_line (name user) (email user)) w else w)"

definition logUserUpdated_ts :: "User \<Rightarrow> world \<Rightarrow> world" where
  "logUserUpdated_ts user w =
     (if isEnabled w then console_log (updated_line (name user) (email user)) w else w)"


subsection \<open>TypeScript: BaseUserManager and UserManagerDRY\<close>

definition validateUserData_ts :: "UserData \<Rightarrow> bool \<Rightarrow> js_error + unit" where
  "validateUserData_ts userData isUpdate =
     (case validateEmail_ts (email userData) of Inl x \<Rightarrow> Inl x | Inr _ \<Rightarrow>
      (case validateName_ts (name userData) of Inl x \<Rightarrow> Inl x | Inr _ \<Rightarrow>
       validatePassword_ts (or_empty (password userData)) (\<not> isUpdate)))"

definition formatUserData_ts :: "UserData \<Rightarrow> js_value \<Rightarrow> world \<Rightarrow> User outcome" where
  "formatUserData_ts userData userId w =
     (case getCurrentTimestamp w of (timestamp, w1) \<Rightarrow>
      (case (if truthy userId then (template userId, w1) else generateId w1) of (i, w2) \<Rightarrow>
       (case formatEmail (email userData) of Inl x \<Rightarrow> (Inl x, w2) | Inr e \<Rightarrow>
        (case formatName (name userData) of Inl x \<Rightarrow> (Inl x, w2) | Inr n \<Rightarrow>
           (let user = \<lparr>email = Some e, name = Some n, password = password userData,
                        id' = i, createdAt = None, updatedAt = timestamp\<rparr>
            in (Inr (if \<not> truthy userId then user\<lparr>createdAt := Some timestamp\<rparr> else user),
                w2))))))"

definition DRY_createUser_ts :: "UserData \<Rightarrow> world \<Rightarrow> User outcome" where
  "DRY_createUser_ts userData w =
     (case validateUserData_ts userData False of Inl x \<Rightarrow> (Inl x, w) | Inr _ \<Rightarrow>
      (case formatUserData_ts userData None w of
         (Inl x, w1) \<Rightarrow> (Inl x, w1)
       | (Inr user, w1) \<Rightarrow> (Inr user, logUserCreated_ts user w1)))"

definition DRY_updateUser_ts :: "string \<Rightarrow> UserData \<Rightarrow> world \<Rightarrow> User outcome" where
  "DRY_updateUser_ts userId userData w =
     (case validateUserData_ts userData True of Inl x \<Rightarrow> (Inl x, w) | Inr _ \<Rightarrow>
      (case formatUserData_ts userData (Some userId) w of
         (Inl x, w1) \<Rightarrow> (Inl x, w1)
       | (Inr updatedUser, w1) \<Rightarrow> (Inr updatedUser, logUserUpdated_ts updatedUser w1)))"

subsection \<open>TypeScript: ConfigurableUserManager\<close>

definition validateField :: "string \<Rightarrow> js_value \<Rightarrow> int \<Rightarrow> js_error + unit" where
  "validateField fieldName v minLength =
     (if falsy_or_shorter v minLength then Inl (Error (''Invalid '' @ fieldName))
      else Inr ())"

definition Configurable_validateUserData_ts ::
  "UserManagerConfig \<Rightarrow> UserData \<Rightarrow> bool \<Rightarrow> js_error + unit" where
  "Configurable_validateUserData_ts this userData isUpdate =
     (case validateField ''email'' (email userData) (emailMinLength (validation this)) of
        Inl x \<Rightarrow> Inl x | Inr _ \<Rightarrow>
      (if \<not> regexp_test (emailPattern (validation this)) (template (email userData))
         then Inl (Error ''Invalid email format'')
       else
        (case validateField ''name'' (name userData) (nameMinLength (validation this)) of
           Inl x \<Rightarrow> Inl x | Inr _ \<Rightarrow>
         (if \<not> isUpdate \<or> truthy (password userData)
          then validateField ''password'' (or_empty (password userData))
                 (passwordMinLength (validation this))
          else Inr ()))))"

definition Configurable_log_ts :: "UserManagerConfig \<Rightarrow> string \<Rightarrow> world \<Rightarrow> world" where
  \<comment> \<open>\<open>console[this.config.logging.level](message)\<close>\<close>
  "Configurable_log_ts this message w =
     (if enabled (logging this) then console_out (level (logging this)) message w else w)"

definition Configurable_createUser_ts ::
  "UserManagerConfig \<Rightarrow> UserData \<Rightarrow> world \<Rightarrow> User outcome" where
  "Configurable_createUser_ts this userData w =
     (case Configurable_validateUserData_ts this userData False of
        Inl x \<Rightarrow> (Inl x, w) | Inr _ \<Rightarrow>
      (case formatUserData_ts userData None w of
         (Inl x, w1) \<Rightarrow> (Inl x, w1)
       | (Inr user, w1) \<Rightarrow>
           (Inr user, Configurable_log_ts this (created_line (name user) (email user)) w1)))"

definition Configurable_updateUser_ts ::
  "UserManagerConfig \<Rightarrow> string \<Rightarrow> UserData \<Rightarrow> world \<Rightarrow> User outcome" where
  "Configurable_updateUser_ts this userId userData w =
     (case Configurable_validateUserData_ts this userData True of
        Inl x \<Rightarrow> (Inl x, w) | Inr _ \<Rightarrow>
      (case formatUserData_ts userData (Some userId) w of
         (Inl x, w1) \<Rightarrow> (Inl x, w1)
       | (Inr updatedUser, w1) \<Rightarrow>
           (Inr updatedUser,
            Configurable_log_ts this
              (updated_line (name updatedUser) (email updatedUser)) w1)))"

subsection \<open>TypeScript: TemplateUserManager and ConcreteUserManager\<close>

definition validateInput :: "UserData \<Rightarrow> bool \<Rightarrow> js_error + unit" where
  "validateInput userData isUpdate =
     (case validateEmail_ts (email userData) of Inl x \<Rightarrow> Inl x | Inr _ \<Rightarrow>
      (case validateName_ts (name userData) of Inl x \<Rightarrow> Inl x | Inr _ \<Rightarrow>
       validatePassword_ts (or_empty (password userData)) (\<not> isUpdate)))"

definition formatUser :: "UserData \<Rightarrow> js_value \<Rightarrow> world \<Rightarrow> User outcome" where
  "formatUser userData userId w =
     (case getCurrentTimestamp w of (timestamp, w1) \<Rightarrow>
      (case (if truthy userId then (template userId, w1) else generateId w1) of (i, w2) \<Rightarrow>
       (case formatEmail (email userData) of Inl x \<Rightarrow> (Inl x, w2) | Inr e \<Rightarrow>
        (case formatName (name userData) of Inl x \<Rightarrow> (Inl x, w2) | Inr n \<Rightarrow>
           (Inr \<lparr>email = Some e, name = Some n, password = password userData,
                 id' = i,
                 createdAt = (if truthy userId then None else Some timestamp),
                 updatedAt = timestamp\<rparr>, w2)))))"

definition logOperation :: "User \<Rightarrow> bool \<Rightarrow> world \<Rightarrow> world" where
  "logOperation user isUpdate w =
     console_log (''User '' @ (if isUpdate then ''updated'' else ''created'') @ '': ''
        @ template (name user) @ '' ('' @ template (email user) @ '')'') w"

definition performAdditionalOperations :: "User \<Rightarrow> world \<Rightarrow> world" where
  "performAdditionalOperations user w =
     console_log (''Performing additional operations for user: '' @ id' user) w"

definition processUser :: "UserData \<Rightarrow> js_value \<Rightarrow> world \<Rightarrow> User outcome" where
  "processUser userData userId w =
     (case validateInput userData (truthy userId) of Inl x \<Rightarrow> (Inl x, w) | Inr _ \<Rightarrow>
      (case formatUser userData userId w of
         (Inl x, w1) \<Rightarrow> (Inl x, w1)
       | (Inr user, w1) \<Rightarrow>
           (Inr user, performAdditionalOperations user (logOperation user (truthy userId) w1))))"

definition Concrete_createUser :: "UserData \<Rightarrow> world \<Rightarrow> User outcome" where
  "Concrete_createUser userData w = processUser userData None w"

definition Concrete_updateUser :: "string \<Rightarrow> UserData \<Rightarrow> world \<Rightarrow> User outcome" where
  "Concrete_updateUser userId userData w = processUser userData (Some userId) w"

subsection \<open>TypeScript: UserManagerFactory\<close>

text \<open>
  The factory keeps a static map from keys to managers. A manager never changes after
  its construction, so the map holds the configuration the manager was built with. The
  optional \<open>customConfig\<close> is an object whose keys \<open>validation\<close> and \<open>logging\<close> may be
  absent, and so may every key below them. The key of the map contains the JSON text
  of \<open>customConfig\<close>; that text lists the keys in the order in which the caller wrote
  them, and the model takes them in the order of the interface declarations. Minimum
  lengths are integers. \<open>JSON.stringify\<close> writes a \<open>RegExp\<close> as \<open>{}\<close>.
\<close>

datatype manager_type = Basic | Strict | Lenient

record CustomValidation =
  custom_emailMinLength :: "int option"
  custom_nameMinLength :: "int option"
  custom_passwordMinLength :: "int option"
  custom_emailPattern :: "regexp option"

record CustomLogging =
  custom_enabled :: "bool option"
  custom_level :: "level option"

record CustomConfig =
  custom_validation :: "CustomValidation option"
  custom_logging :: "CustomLogging option"

definition type_name :: "manager_type \<Rightarrow> string" where
  "type_name t = (case t of Basic \<Rightarrow> ''basic'' | Strict \<Rightarrow> ''strict'' | Lenient \<Rightarrow> ''lenient'')"

definition empty_object :: CustomConfig where
  \<comment> \<open>\<open>{}\<close>\<close>
  "empty_object = \<lparr>custom_validation = None, custom_logging = None\<rparr>"

definition configs :: "manager_type \<Rightarrow> CustomConfig" where
  "configs t =
     (case t of
        Basic \<Rightarrow> empty_object
      | Strict \<Rightarrow>
          \<lparr>custom_validation = Some \<lparr>custom_emailMinLength = Some 8,
             custom_nameMinLength = None, custom_passwordMinLength = Some 12,
             custom_emailPattern = None\<rparr>,
           custom_logging = None\<rparr>
      | Lenient \<Rightarrow>
          \<lparr>custom_validation = Some \<lparr>custom_emailMinLength = None,
             custom_nameMinLength = Some 1, custom_passwordMinLength = Some 6,
             custom_emailPattern = None\<rparr>,
           custom_logging = None\<rparr>)"

definition spread :: "CustomConfig \<Rightarrow> CustomConfig option \<Rightarrow> CustomConfig" where
  \<comment> \<open>\<open>{ ...first, ...second }\<close>: a key of the second object replaces the same key of
      the first as a whole\<close>
  "spread first second =
     (case second of None \<Rightarrow> first
      | Some c \<Rightarrow>
          \<lparr>custom_validation =
             (case custom_validation c of None \<Rightarrow> custom_validation first | Some v \<Rightarrow> Some v),
           custom_logging =
             (case custom_logging c of None \<Rightarrow> custom_logging first | Some l \<Rightarrow> Some l)\<rparr>)"

definition constructor_argument :: "CustomConfig \<Rightarrow> PartialConfig" where
  \<comment> \<open>the settings that the constructor finds under \<open>config.validation\<close> and
      \<open>config.logging\<close>\<close>
  "constructor_argument c =
     \<lparr>given_emailMinLength = Option.bind (custom_validation c) custom_emailMinLength,
      given_nameMinLength = Option.bind (custom_validation c) custom_nameMinLength,
      given_passwordMinLength = Option.bind (custom_validation c) custom_passwordMinLength,
      given_emailPattern = Option.bind (custom_validation c) custom_emailPattern,
      given_enabled = Option.bind (custom_logging c) custom_enabled,
      given_level = Option.bind (custom_logging c) custom_level\<rparr>"

fun decimal :: "nat \<Rightarrow> string" where
  "decimal n =
     (if n < 10 then [char_of (48 + n)]
      else decimal (n div 10) @ [char_of (48 + n mod 10)])"

definition number_text :: "int \<Rightarrow> string" where
  "number_text i = (if i < 0 then ''-'' @ decimal (nat (- i)) else decimal (nat i))"

definition quoted :: "string \<Rightarrow> string" where
  "quoted s = [CHR 0x22] @ s @ [CHR 0x22]"

definition json_member :: "string \<Rightarrow> string option \<Rightarrow> string list" where
  \<comment> \<open>a key that is absent is not written\<close>
  "json_member k v = (case v of None \<Rightarrow> [] | Some t \<Rightarrow> [quoted k @ '':'' @ t])"

fun comma_separated :: "string list \<Rightarrow> string" where
  "comma_separated [] = []"
| "comma_separated [m] = m"
| "comma_separated (m # ms) = m @ '','' @ comma_separated ms"

definition json_object :: "string list \<Rightarrow> string" where
  "json_object members = ''{'' @ comma_separated members @ ''}''"

definition level_text :: "level \<Rightarrow> string" where
  "level_text l =
     quoted (case l of Log \<Rightarrow> ''log'' | Info \<Rightarrow> ''info'' | Warn \<Rightarrow> ''warn'' | Err \<Rightarrow> ''error'')"

definition stringify_validation :: "CustomValidation \<Rightarrow> string" where
  "stringify_validation v =
     json_object
       (json_member ''emailMinLength'' (map_option number_text (custom_emailMinLength v)) @
        json_member ''nameMinLength'' (map_option number_text (custom_nameMinLength v)) @
        json_member ''passwordMinLength''
          (map_option number_text (custom_passwordMinLength v)) @
        json_member ''emailPattern'' (map_option (\<lambda>r. ''{}'') (custom_emailPattern v)))"

definition stringify_logging :: "CustomLogging \<Rightarrow> string" where
  "stringify_logging l =
     json_object
       (json_member ''enabled''
          (map_option (\<lambda>b. if b then ''true'' else ''false'') (custom_enabled l)) @
        json_member ''level'' (map_option level_text (custom_level l)))"

definition stringify :: "CustomConfig \<Rightarrow> string" where
  "stringify c =
     json_object
       (json_member ''validation'' (map_option stringify_validation (custom_validation c)) @
        json_member ''logging'' (map_option stringify_logging (custom_logging c)))"

definition manager_key :: "manager_type \<Rightarrow> CustomConfig option \<Rightarrow> string" where
  \<comment> \<open>\<^verbatim>\<open>`${type}_${JSON.stringify(customConfig || {})}`\<close>\<close>
  "manager_key t customConfig =
     type_name t @ ''_'' @
     stringify (case customConfig of None \<Rightarrow> empty_object | Some c \<Rightarrow> c)"

definition createManager ::
  "manager_type \<Rightarrow> CustomConfig option \<Rightarrow> (string \<rightharpoonup> UserManagerConfig) \<Rightarrow>
   UserManagerConfig \<times> (string \<rightharpoonup> UserManagerConfig)" where
  \<comment> \<open>the last argument and the second result are the static \<open>instances\<close>\<close>
  "createManager t customConfig instances =
     (let key = manager_key t customConfig in
      case instances key of
        Some manager \<Rightarrow> (manager, instances)
      | None \<Rightarrow>
          (let config = spread (configs t) customConfig;
               manager = ConfigurableUserManager (constructor_argument config)
           in (manager, instances(key \<mapsto> manager))))"

section \<open>The notification example\<close>

record Message =
  content :: string

datatype Sender = EmailSender | SMSSender | PushSender

fun send :: "Sender \<Rightarrow> Message \<Rightarrow> world \<Rightarrow> world" where
  "send EmailSender message w = console_log (''Sending EMAIL: '' @ content message) w"
| "send SMSSender message w = console_log (''Sending SMS: '' @ content message) w"
| "send PushSender message w = console_log (''Sending PUSH: '' @ content message) w"

fun forEach :: "'a list \<Rightarrow> ('a \<Rightarrow> world \<Rightarrow> world) \<Rightarrow> world \<Rightarrow> world" where
  "forEach [] f w = w"
| "forEach (x # xs) f w = forEach xs f (f x w)"

definition notify :: "Sender list \<Rightarrow> Message \<Rightarrow> world \<Rightarrow> world" where
  \<comment> \<open>the first argument is \<open>this.senders\<close>\<close>
  "notify senders message w = forEach senders (\<lambda>sender. send sender message) w"

section \<open>Vocabulary of the properties\<close>

text \<open>
  The definitions of this section are not code of the examples. They name the
  operations of the user managers, so that a property can speak of any of them, and
  spell out the words the properties use.
\<close>

datatype operation =
    WET_create UserData
  | WET_update string UserData
  | DRY_create UserData
  | DRY_update string UserData
  | Configurable_create UserManagerConfig UserData
  | Configurable_update UserManagerConfig string UserData
  | DRY_create_ts UserData
  | DRY_update_ts string UserData
  | Configurable_create_ts UserManagerConfig UserData
  | Configurable_update_ts UserManagerConfig string UserData
  | Concrete_create UserData
  | Concrete_update string UserData

fun run :: "operation \<Rightarrow> world \<Rightarrow> User outcome" where
  "run (WET_create d) w = WET_createUser d w"
| "run (WET_update i d) w = WET_updateUser i d w"
| "run (DRY_create d) w = DRY_createUser d w"
| "run (DRY_update i d) w = DRY_updateUser i d w"
| "run (Configurable_create c d) w = Configurable_createUser c d w"
| "run (Configurable_update c i d) w = Configurable_updateUser c i d w"
| "run (DRY_create_ts d) w = DRY_createUser_ts d w"
| "run (DRY_update_ts i d) w = DRY_updateUser_ts i d w"
| "run (Configurable_create_ts c d) w = Configurable_createUser_ts c d w"
| "run (Configurable_update_ts c i d) w = Configurable_updateUser_ts c i d w"
| "run (Concrete_create d) w = Concrete_createUser d w"
| "run (Concrete_update i d) w = Concrete_updateUser i d w"

definition throws :: "'a outcome \<Rightarrow> string \<Rightarrow> bool" where
  \<comment> \<open>the call ends in \<open>throw new Error(m)\<close>\<close>
  "throws r m = (fst r = Inl (Error m))"

definition returns :: "'a outcome \<Rightarrow> bool" where
  \<comment> \<open>the call returns a value\<close>
  "returns r = (case fst r of Inl _ \<Rightarrow> False | Inr _ \<Rightarrow> True)"

definition absent_or_shorter :: "js_value \<Rightarrow> nat \<Rightarrow> bool" where
  \<comment> \<open>the field is absent or has fewer than \<open>n\<close> characters\<close>
  "absent_or_shorter v n = (case v of None \<Rightarrow> True | Some s \<Rightarrow> length s < n)"

definition present_with_length :: "js_value \<Rightarrow> nat \<Rightarrow> bool" where
  \<comment> \<open>the field is present and has at least \<open>n\<close> characters\<close>
  "present_with_length v n = (case v of None \<Rightarrow> False | Some s \<Rightarrow> n \<le> length s)"

definition matches_emailPattern :: "js_value \<Rightarrow> bool" where
  "matches_emailPattern v = regexp_test default_emailPattern (template v)"

definition visible :: "js_error + User \<Rightarrow> js_error + js_value \<times> js_value \<times> js_value" where
  \<comment> \<open>the error thrown, or the email, name and password of the record returned\<close>
  "visible r = (case r of Inl x \<Rightarrow> Inl x | Inr u \<Rightarrow> Inr (email u, name u, password u))"

definition printed :: "world \<Rightarrow> world \<Rightarrow> (level \<times> string) list" where
  \<comment> \<open>the console lines added between an earlier and a later world\<close>
  "printed w w' = drop (length (console w)) (console w')"

definition sender_line :: "Sender \<Rightarrow> Message \<Rightarrow> string" where
  "sender_line s m =
     (case s of EmailSender \<Rightarrow> ''Sending EMAIL: '' | SMSSender \<Rightarrow> ''Sending SMS: ''
      | PushSender \<Rightarrow> ''Sending PUSH: '') @ content m"

definition sample_world :: world where
  \<comment> \<open>a world for concrete runs: an empty console, a clock that moves on after its
      first reading, and the logger enabled as its class declares it\<close>
  "sample_world = \<lparr>console = [], random_ids = (\<lambda>k. ''k3j9x2m1q''), random_calls = 0,
     clock = (\<lambda>k. if k = 0 then ''2024-01-01T00:00:00.000Z''
                   else ''2024-01-01T00:00:00.001Z''),
     clock_calls = 0, isEnabled = True\<rparr>"

definition john :: UserData where
  "john = \<lparr>email = Some ''john@example.com'', name = Some ''John Doe'',
     password = Some ''password123''\<rparr>"

definition bob :: UserData where
  "bob = \<lparr>email = Some ''bob@example.com'', name = Some ''Bob Johnson'',
     password = Some ''short''\<rparr>"

definition default_manager :: UserManagerConfig where
  \<comment> \<open>\<open>new ConfigurableUserManager()\<close>\<close>
  "default_manager = ConfigurableUserManager no_config"

fun data_of :: "operation \<Rightarrow> UserData" where
  "data_of (WET_create d) = d"
| "data_of (WET_update i d) = d"
| "data_of (DRY_create d) = d"
| "data_of (DRY_update i d) = d"
| "data_of (Configurable_create c d) = d"
| "data_of (Configurable_update c i d) = d"
| "data_of (DRY_create_ts d) = d"
| "data_of (DRY_update_ts i d) = d"
| "data_of (Configurable_create_ts c d) = d"
| "data_of (Configurable_update_ts c i d) = d"
| "data_of (Concrete_create d) = d"
| "data_of (Concrete_update i d) = d"

fun userId_of :: "operation \<Rightarrow> string option" where
  "userId_of (WET_update i d) = Some i"
| "userId_of (DRY_update i d) = Some i"
| "userId_of (Configurable_update c i d) = Some i"
| "userId_of (DRY_update_ts i d) = Some i"
| "userId_of (Configurable_update_ts c i d) = Some i"
| "userId_of (Concrete_update i d) = Some i"
| "userId_of _ = None"

fun is_WET :: "operation \<Rightarrow> bool" where
  "is_WET (WET_create d) = True"
| "is_WET (WET_update i d) = True"
| "is_WET _ = False"

definition spaced :: UserData where
  "spaced = \<lparr>email = Some '' A@B.co'', name = Some '' Al '',
     password = Some ''12345678''\<rparr>"

definition plain :: UserData where
  \<comment> \<open>every field long enough, the email without \<open>@\<close>\<close>
  "plain = \<lparr>email = Some ''abcde'', name = Some ''Al'', password = Some ''12345678''\<rparr>"

definition empty_password :: UserData where
  "empty_password = \<lparr>email = Some ''a@b.co'', name = Some ''Al'', password = Some []\<rparr>"

definition no_password :: UserData where
  "no_password = \<lparr>email = Some ''a@b.co'', name = Some ''Al'', password = None\<rparr>"


definition later_world :: world where
  \<comment> \<open>the sample world after one reading of the clock\<close>
  "later_world = sample_world\<lparr>clock_calls := 1\<rparr>"

definition john_created :: User where
  "john_created = \<lparr>email = Some ''john@example.com'', name = Some ''John Doe'',
     password = Some ''password123'', id' = ''k3j9x2m1q'',
     createdAt = Some ''2024-01-01T00:00:00.000Z'',
     updatedAt = ''2024-01-01T00:00:00.000Z''\<rparr>"

definition john_updated :: User where
  "john_updated = \<lparr>email = Some ''john@example.com'', name = Some ''John Doe'',
     password = Some ''password123'', id' = ''u1'', createdAt = None,
     updatedAt = ''2024-01-01T00:00:00.001Z''\<rparr>"

definition spaced_created :: User where
  "spaced_created = \<lparr>email = Some ''a@b.co'', name = Some ''Al'',
     password = Some ''12345678'', id' = ''k3j9x2m1q'',
     createdAt = Some ''2024-01-01T00:00:00.000Z'',
     updatedAt = ''2024-01-01T00:00:00.000Z''\<rparr>"



record program =
  outside :: world
  instances :: "string \<rightharpoonup> UserManagerConfig"







definition anything :: CustomConfig where
  \<comment> \<open>a custom configuration whose pattern accepts every string\<close>
  "anything = \<lparr>custom_validation = Some \<lparr>custom_emailMinLength = None,
       custom_nameMinLength = None, custom_passwordMinLength = None,
       custom_emailPattern = Some (Many (Class [(CHR 0x00, CHR 0xFF)]))\<rparr>,
     custom_logging = None\<rparr>"

definition nothing :: CustomConfig where
  \<comment> \<open>a custom configuration whose pattern accepts no string\<close>
  "nothing = \<lparr>custom_validation = Some \<lparr>custom_emailMinLength = None,
       custom_nameMinLength = None, custom_passwordMinLength = None,
       custom_emailPattern = Some Fail\<rparr>,
     custom_logging = None\<rparr>"

section \<open>Facts about the helpers\<close>

lemma falsy_or_shorter_absent [simp]: "falsy_or_shorter None n"
  by (simp add: falsy_or_shorter_def)

lemma falsy_or_shorter_present [simp]:
  "falsy_or_shorter (Some s) n = (s = [] \<or> int (length s) < n)"
  by (simp add: falsy_or_shorter_def)

lemma truthy_and_shorter_absent [simp]: "\<not> truthy_and_shorter None n"
  by (simp add: truthy_and_shorter_def)

lemma truthy_and_shorter_present [simp]:
  "truthy_and_shorter (Some s) n = (s \<noteq> [] \<and> int (length s) < n)"
  by (simp add: truthy_and_shorter_def)

lemma truthy_simps [simp]: "\<not> truthy None" "truthy (Some s) = (s \<noteq> [])"
  by (simp_all add: truthy_def)

lemma template_Some [simp]: "template (Some s) = s"
  by (simp add: template_def)

lemma or_empty_simps [simp]:
  "or_empty None = Some []" "or_empty (Some s) = Some s"
  by (simp_all add: or_empty_def)

lemma console_log_console [simp]: "console (console_log s w) = console w @ [(Log, s)]"
  by (simp add: console_log_def console_out_def)

lemma console_out_console [simp]: "console (console_out l s w) = console w @ [(l, s)]"
  by (simp add: console_out_def)

lemma console_log_isEnabled [simp]: "isEnabled (console_log s w) = isEnabled w"
  by (simp add: console_log_def console_out_def)

lemma console_out_isEnabled [simp]: "isEnabled (console_out l s w) = isEnabled w"
  by (simp add: console_out_def)

lemmas validation_defs =
  validateUserData_def validateEmail_def validateName_def validatePassword_def
  EMAIL_MIN_LENGTH_def NAME_MIN_LENGTH_def PASSWORD_MIN_LENGTH_def
  Configurable_validateUserData_def validate_def
  validateUserData_ts_def validateInput_def validateEmail_ts_def validateName_ts_def
  validatePassword_ts_def VALIDATION_RULES_def
  Configurable_validateUserData_ts_def validateField_def

lemmas formatting_defs =
  formatUserData_def formatUserData_ts_def formatUser_def formatEmail_def formatName_def
  generateId_def getCurrentTimestamp_def


lemmas manager_defs =
  WET_createUser_def WET_updateUser_def DRY_createUser_def DRY_updateUser_def
  Configurable_createUser_def Configurable_updateUser_def
  DRY_createUser_ts_def DRY_updateUser_ts_def
  Configurable_createUser_ts_def Configurable_updateUser_ts_def
  Concrete_createUser_def Concrete_updateUser_def processUser_def

lemmas config_defs = default_manager_def ConfigurableUserManager_def no_config_def over_def

lemmas pattern_defs =
  matches_emailPattern_def default_emailPattern_def one_or_more_def two_or_more_def
  single_def in_range_def code_unit_def

lemma absent_or_shorter_simps [simp]:
  "absent_or_shorter None n" "absent_or_shorter (Some s) n = (length s < n)"
  by (simp_all add: absent_or_shorter_def)

lemma present_with_length_simps [simp]:
  "\<not> present_with_length None n" "present_with_length (Some s) n = (n \<le> length s)"
  by (simp_all add: present_with_length_def)

lemma run_fields:
  "fst (run a w) = Inr u \<Longrightarrow>
   email u = map_option (\<lambda>s. trim (toLowerCase s)) (email (data_of a)) \<and>
   name u = map_option trim (name (data_of a)) \<and>
   password u = password (data_of a)"
  by (cases a; cases "email (data_of a)"; cases "name (data_of a)")
     (auto simp: manager_defs validation_defs formatting_defs split: if_splits)

section \<open>The notification service\<close>

lemma forEach_console:
  "console (forEach xs (\<lambda>x. console_log (f x)) w) = console w @ map (\<lambda>x. (Log, f x)) xs"
  by (induction xs arbitrary: w) simp_all

lemma send_is_console_log: "send s m = console_log (sender_line s m)"
  by (cases s) (simp_all add: sender_line_def fun_eq_iff)

text \<open>
  C2. For every message and every list of senders, \<open>notify\<close> calls \<open>send\<close> once on
  each sender, in the order of the list: the console gains exactly one line for each
  sender, in that order, and the line of a sender is \<open>Sending EMAIL: \<close>,
  \<open>Sending SMS: \<close> or \<open>Sending PUSH: \<close> followed by the content of the message.
\<close>

theorem notify_prints_one_line_per_sender:
  "console (notify senders m w) =
     console w @ map (\<lambda>s. (Log,
       (case s of EmailSender \<Rightarrow> ''Sending EMAIL: '' | SMSSender \<Rightarrow> ''Sending SMS: ''
        | PushSender \<Rightarrow> ''Sending PUSH: '') @ content m)) senders"
proof -
  have "notify senders m w = forEach senders (\<lambda>s. console_log (sender_line s m)) w"
    by (simp add: notify_def send_is_console_log)
  then show ?thesis
    by (simp add: forEach_console sender_line_def)
qed

section \<open>Errors come before every effect\<close>

lemma throw_in_run: "fst (run a w) = Inl e \<Longrightarrow> snd (run a w) = w"
  by (cases a; cases "email (data_of a)"; cases "name (data_of a)")
     (auto simp: manager_defs validation_defs formatting_defs split: if_splits)

text \<open>
  C6. The error handling of every operation is a single throw that comes before any
  formatting and any console output. When the validation of \<open>createUser\<close> or
  \<open>updateUser\<close> rejects the data, the call throws that error and the world is as it
  was: no line is printed, the clock and the random number generator are not read. And
  whenever any of the twelve operations throws, the world is as it was.
\<close>

theorem error_before_any_output:
  "(validateUserData d False = Inl e \<longrightarrow> DRY_createUser d w = (Inl e, w)) \<and>
   (validateUserData d True = Inl e \<longrightarrow> DRY_updateUser i d w = (Inl e, w)) \<and>
   (Configurable_validateUserData c d False = Inl e \<longrightarrow>
      Configurable_createUser c d w = (Inl e, w)) \<and>
   (Configurable_validateUserData c d True = Inl e \<longrightarrow>
      Configurable_updateUser c i d w = (Inl e, w)) \<and>
   (fst (run a w) = Inl e \<longrightarrow> snd (run a w) = w)"
  using throw_in_run [of a w e]
  by (simp add: DRY_createUser_def DRY_updateUser_def Configurable_createUser_def
        Configurable_updateUser_def)

lemma bob_DRY: "validateUserData bob False = Inl (Error ''Password too short'')"
  by (simp add: validation_defs bob_def)

lemma bob_Configurable:
  "Configurable_validateUserData default_manager bob True = Inl (Error ''Invalid password'')"
  by (simp add: validation_defs bob_def config_defs)

theorem error_before_any_output_witness:
  "DRY_createUser bob sample_world = (Inl (Error ''Password too short''), sample_world) \<and>
   Configurable_updateUser default_manager ''u1'' bob sample_world =
     (Inl (Error ''Invalid password''), sample_world) \<and>
   snd (run (DRY_create bob) sample_world) = sample_world"
  using error_before_any_output [of bob "Error ''Password too short''" sample_world
      "''u1''" default_manager "DRY_create bob"]
    error_before_any_output [of bob "Error ''Invalid password''" sample_world
      "''u1''" default_manager "DRY_create bob"]
    bob_DRY bob_Configurable
  by simp

section \<open>The message of the first failed check\<close>

lemma email_too_short:
  assumes "absent_or_shorter (email d) 5"
  shows "throws (WET_createUser d w) ''Invalid email''"
    and "throws (DRY_createUser d w) ''Invalid email''"
    and "throws (Configurable_createUser default_manager d w) ''Invalid email''"
    and "throws (DRY_createUser_ts d w) ''Invalid email''"
    and "throws (Configurable_createUser_ts default_manager d w) ''Invalid email''"
    and "throws (Concrete_createUser d w) ''Invalid email''"
  using assms
  by (cases "email d"; auto simp: throws_def manager_defs validation_defs config_defs)+

lemma name_too_short:
  assumes "present_with_length (email d) 5" and "absent_or_shorter (name d) 2"
  shows "throws (WET_createUser d w) ''Invalid name''"
    and "throws (DRY_createUser d w) ''Invalid name''"
    and "throws (Configurable_createUser default_manager d w) ''Invalid name''"
  using assms
  by (cases "email d"; cases "name d";
      auto simp: throws_def manager_defs validation_defs config_defs)+

lemma email_format:
  assumes "present_with_length (email d) 5" and "\<not> matches_emailPattern (email d)"
  shows "throws (DRY_createUser_ts d w) ''Invalid email format''"
    and "throws (Configurable_createUser_ts default_manager d w) ''Invalid email format''"
    and "throws (Concrete_createUser d w) ''Invalid email format''"
  using assms
  by (cases "email d";
      auto simp: throws_def manager_defs validation_defs config_defs matches_emailPattern_def)+

lemma name_too_short_ts:
  assumes "present_with_length (email d) 5" and "matches_emailPattern (email d)"
    and "absent_or_shorter (name d) 2"
  shows "throws (DRY_createUser_ts d w) ''Invalid name''"
    and "throws (Configurable_createUser_ts default_manager d w) ''Invalid name''"
    and "throws (Concrete_createUser d w) ''Invalid name''"
  using assms
  by (cases "email d"; cases "name d";
      auto simp: throws_def manager_defs validation_defs config_defs matches_emailPattern_def)+

lemma password_too_short:
  assumes "present_with_length (email d) 5" and "present_with_length (name d) 2"
    and "absent_or_shorter (password d) 8"
  shows "throws (WET_createUser d w) ''Password too short''"
    and "throws (DRY_createUser d w) ''Password too short''"
    and "throws (Configurable_createUser default_manager d w) ''Invalid password''"
  using assms
  by (cases "email d"; cases "name d"; cases "password d";
      auto simp: throws_def manager_defs validation_defs config_defs)+

lemma password_too_short_ts:
  assumes "present_with_length (email d) 5" and "matches_emailPattern (email d)"
    and "present_with_length (name d) 2" and "absent_or_shorter (password d) 8"
  shows "throws (DRY_createUser_ts d w) ''Password too short''"
    and "throws (Configurable_createUser_ts default_manager d w) ''Invalid password''"
    and "throws (Concrete_createUser d w) ''Password too short''"
  using assms
  by (cases "email d"; cases "name d"; cases "password d";
      auto simp: throws_def manager_defs validation_defs config_defs matches_emailPattern_def)+

text \<open>
  C1 fails as it is stated, on a manager that is one of the variants without
  duplication: \<open>ConfigurableUserManager\<close> builds every message as \<open>Invalid \<close> and the
  name of the field, so a password of five characters is answered with
  \<open>Invalid password\<close>, not with \<open>Password too short\<close>.
\<close>

theorem configurable_password_message:
  "absent_or_shorter (password bob) 8 \<and>
   throws (Configurable_createUser default_manager bob sample_world) ''Invalid password'' \<and>
   \<not> throws (Configurable_createUser default_manager bob sample_world) ''Password too short''"
  by (simp add: throws_def bob_def manager_defs validation_defs config_defs)

text \<open>
  C1, amended. \<open>createUser\<close> checks email, name and password in this order and throws
  at the first check that fails. \<open>UserManagerWET\<close> and the JavaScript
  \<open>UserManagerDRY\<close> throw \<open>Invalid email\<close>, \<open>Invalid name\<close> and
  \<open>Password too short\<close>; \<open>ConfigurableUserManager\<close> with its default configuration
  throws \<open>Invalid password\<close> for the password. The TypeScript managers without
  duplication test the email against the pattern right after its length and throw
  \<open>Invalid email format\<close> before they look at the name; for an email that matches
  they throw the same messages as their JavaScript counterparts.
\<close>

theorem message_of_first_failed_check:
  "(absent_or_shorter (email d) 5 \<longrightarrow>
      throws (WET_createUser d w) ''Invalid email'' \<and>
      throws (DRY_createUser d w) ''Invalid email'' \<and>
      throws (Configurable_createUser default_manager d w) ''Invalid email'' \<and>
      throws (DRY_createUser_ts d w) ''Invalid email'' \<and>
      throws (Configurable_createUser_ts default_manager d w) ''Invalid email'' \<and>
      throws (Concrete_createUser d w) ''Invalid email'') \<and>
   (present_with_length (email d) 5 \<and> absent_or_shorter (name d) 2 \<longrightarrow>
      throws (WET_createUser d w) ''Invalid name'' \<and>
      throws (DRY_createUser d w) ''Invalid name'' \<and>
      throws (Configurable_createUser default_manager d w) ''Invalid name'') \<and>
   (present_with_length (email d) 5 \<and> present_with_length (name d) 2 \<and>
    absent_or_shorter (password d) 8 \<longrightarrow>
      throws (WET_createUser d w) ''Password too short'' \<and>
      throws (DRY_createUser d w) ''Password too short'' \<and>
      throws (Configurable_createUser default_manager d w) ''Invalid password'') \<and>
   (present_with_length (email d) 5 \<and> \<not> matches_emailPattern (email d) \<longrightarrow>
      throws (DRY_createUser_ts d w) ''Invalid email format'' \<and>
      throws (Configurable_createUser_ts default_manager d w) ''Invalid email format'' \<and>
      throws (Concrete_createUser d w) ''Invalid email format'') \<and>
   (present_with_length (email d) 5 \<and> matches_emailPattern (email d) \<and>
    absent_or_shorter (name d) 2 \<longrightarrow>
      throws (DRY_createUser_ts d w) ''Invalid name'' \<and>
      throws (Configurable_createUser_ts default_manager d w) ''Invalid name'' \<and>
      throws (Concrete_createUser d w) ''Invalid name'') \<and>
   (present_with_length (email d) 5 \<and> matches_emailPattern (email d) \<and>
    present_with_length (name d) 2 \<and> absent_or_shorter (password d) 8 \<longrightarrow>
      throws (DRY_createUser_ts d w) ''Password too short'' \<and>
      throws (Configurable_createUser_ts default_manager d w) ''Invalid password'' \<and>
      throws (Concrete_createUser d w) ''Password too short'')"
  by (simp add: email_too_short name_too_short password_too_short
        email_format name_too_short_ts password_too_short_ts)

lemma bob_matches: "matches_emailPattern (email bob)"
  by (simp add: bob_def pattern_defs)

theorem message_of_first_failed_check_witness:
  "throws (WET_createUser bob sample_world) ''Password too short'' \<and>
   throws (DRY_createUser bob sample_world) ''Password too short'' \<and>
   throws (Configurable_createUser default_manager bob sample_world) ''Invalid password'' \<and>
   throws (DRY_createUser_ts bob sample_world) ''Password too short'' \<and>
   throws (Configurable_createUser_ts default_manager bob sample_world) ''Invalid password'' \<and>
   throws (Concrete_createUser bob sample_world) ''Password too short'' \<and>
   throws (DRY_createUser_ts plain sample_world) ''Invalid email format'' \<and>
   throws (WET_createUser no_password sample_world) ''Password too short''"
proof -
  have b: "present_with_length (email bob) 5" "present_with_length (name bob) 2"
    "absent_or_shorter (password bob) 8"
    by (simp_all add: bob_def)
  have p: "present_with_length (email plain) 5" "\<not> matches_emailPattern (email plain)"
    by (simp_all add: plain_def pattern_defs)
  have n: "present_with_length (email no_password) 5"
    "present_with_length (name no_password) 2" "absent_or_shorter (password no_password) 8"
    by (simp_all add: no_password_def)
  show ?thesis
    using message_of_first_failed_check [of bob sample_world]
      message_of_first_failed_check [of plain sample_world]
      message_of_first_failed_check [of no_password sample_world]
      b p n bob_matches
    by simp
qed

section \<open>Well-formed data\<close>

lemma long_enough_returns:
  assumes "present_with_length (email d) 5" and "present_with_length (name d) 2"
    and "present_with_length (password d) 8"
  shows "returns (WET_createUser d w)"
    and "returns (DRY_createUser d w)"
    and "returns (Configurable_createUser default_manager d w)"
  using assms
  by (cases "email d"; cases "name d"; cases "password d";
      auto simp: returns_def manager_defs validation_defs formatting_defs config_defs)+

lemma long_enough_returns_ts:
  assumes "present_with_length (email d) 5" and "present_with_length (name d) 2"
    and "present_with_length (password d) 8" and "matches_emailPattern (email d)"
  shows "returns (DRY_createUser_ts d w)"
    and "returns (Configurable_createUser_ts default_manager d w)"
    and "returns (Concrete_createUser d w)"
  using assms
  by (cases "email d"; cases "name d"; cases "password d";
      auto simp: returns_def manager_defs validation_defs formatting_defs config_defs
        matches_emailPattern_def)+

text \<open>
  C3 fails as it is stated: the TypeScript \<open>UserManagerDRY\<close> rejects data whose three
  fields are all long enough when the email does not match \<open>emailPattern\<close>.
\<close>

theorem long_enough_yet_rejected:
  "present_with_length (email plain) 5 \<and> present_with_length (name plain) 2 \<and>
   present_with_length (password plain) 8 \<and>
   throws (DRY_createUser_ts plain sample_world) ''Invalid email format''"
  by (simp add: plain_def throws_def manager_defs validation_defs pattern_defs)

text \<open>
  C3, amended. When email, name and password are present with at least 5, 2 and 8
  characters, \<open>createUser\<close> of \<open>UserManagerWET\<close>, of the JavaScript
  \<open>UserManagerDRY\<close> and of the JavaScript \<open>ConfigurableUserManager\<close> with its
  default configuration throws nothing and returns a user record; \<open>createUser\<close> of
  the TypeScript \<open>UserManagerDRY\<close>, \<open>ConfigurableUserManager\<close> (default
  configuration) and \<open>ConcreteUserManager\<close> does so when the email also matches
  \<open>emailPattern\<close>.
\<close>

theorem well_formed_data_returns:
  "present_with_length (email d) 5 \<and> present_with_length (name d) 2 \<and>
   present_with_length (password d) 8 \<longrightarrow>
     returns (WET_createUser d w) \<and> returns (DRY_createUser d w) \<and>
     returns (Configurable_createUser default_manager d w) \<and>
     (matches_emailPattern (email d) \<longrightarrow>
        returns (DRY_createUser_ts d w) \<and>
        returns (Configurable_createUser_ts default_manager d w) \<and>
        returns (Concrete_createUser d w))"
  by (simp add: long_enough_returns long_enough_returns_ts)

lemma john_matches: "matches_emailPattern (email john)"
  by (simp add: john_def pattern_defs)

theorem well_formed_data_returns_witness:
  "returns (WET_createUser john sample_world) \<and> returns (DRY_createUser john sample_world) \<and>
   returns (Configurable_createUser default_manager john sample_world) \<and>
   returns (DRY_createUser_ts john sample_world) \<and>
   returns (Configurable_createUser_ts default_manager john sample_world) \<and>
   returns (Concrete_createUser john sample_world)"
proof -
  have "present_with_length (email john) 5" "present_with_length (name john) 2"
    "present_with_length (password john) 8"
    by (simp_all add: john_def)
  then show ?thesis
    using well_formed_data_returns [of john sample_world] john_matches by simp
qed

section \<open>Email validation\<close>










section \<open>What a call leaves behind\<close>
















lemma printed_nothing [simp]: "printed w w = []"
  by (simp add: printed_def)





text \<open>
  \<open>JSON.stringify\<close> writes every \<open>RegExp\<close> as \<open>{}\<close>, so two custom configurations
  that differ in their pattern alone have one key, and the second call returns the
  manager of the first. The property above says nothing about such a pair.
\<close>

lemma cache_key_ignores_pattern:
  "manager_key Basic (Some nothing) = manager_key Basic (Some anything) \<and>
   fst (createManager Basic (Some nothing)
     (snd (createManager Basic (Some anything) Map.empty))) =
     fst (createManager Basic (Some anything) Map.empty) \<and>
   fst (createManager Basic (Some nothing) Map.empty) \<noteq>
     fst (createManager Basic (Some anything) Map.empty)"
  by code_simp





section \<open>The fields of the record\<close>

text \<open>
  C7 fails as it is stated: the formatting helpers also trim. For an email and a name
  with spaces around them the record holds neither the lower-cased email nor the name
  as it was given.
\<close>

theorem email_is_trimmed_too:
  "visible (fst (DRY_createUser spaced sample_world)) =
     Inr (Some ''a@b.co'', Some ''Al'', Some ''12345678'') \<and>
   map_option toLowerCase (email spaced) = Some '' a@b.co'' \<and>
   name spaced = Some '' Al ''"
  by code_simp

text \<open>
  C7, amended. For every operation of a user manager that returns a record, the email
  of the record is the email of the data converted to lower case and then trimmed, and
  the name of the record is the name of the data trimmed.
\<close>

theorem formatted_fields:
  "fst (run a w) = Inr u \<longrightarrow>
     email u = map_option (\<lambda>s. trim (toLowerCase s)) (email (data_of a)) \<and>
     name u = map_option trim (name (data_of a))"
  using run_fields [of a w u] by simp

lemma run_spaced: "fst (run (DRY_create spaced) sample_world) = Inr spaced_created"
  by code_simp

theorem formatted_fields_witness:
  "fst (run (DRY_create spaced) sample_world) = Inr spaced_created \<and>
   email spaced_created =
     map_option (\<lambda>s. trim (toLowerCase s)) (email (data_of (DRY_create spaced))) \<and>
   name spaced_created = map_option trim (name (data_of (DRY_create spaced)))"
  using formatted_fields [of "DRY_create spaced" sample_world spaced_created] run_spaced
  by simp

section \<open>The password on create and on update\<close>

text \<open>
  C8 fails as it is stated: a password that is supplied as the empty string is
  shorter than the minimum, and \<open>updateUser\<close> accepts it, because the check on
  update is guarded by the truthiness of the password.
\<close>

theorem empty_password_accepted_on_update:
  "password empty_password = Some [] \<and> absent_or_shorter (password empty_password) 8 \<and>
   returns (WET_updateUser ''u1'' empty_password sample_world) \<and>
   returns (DRY_updateUser ''u1'' empty_password sample_world)"
  by code_simp

lemma no_password_on_update:
  assumes "present_with_length (email d) 5" and "present_with_length (name d) 2"
    and "password d = None \<or> password d = Some []"
  shows "returns (WET_updateUser i d w)" and "returns (DRY_updateUser i d w)"
  using assms
  by (cases "email d"; cases "name d";
      auto simp: returns_def manager_defs validation_defs formatting_defs)+

lemma no_password_on_update_ts:
  assumes "present_with_length (email d) 5" and "present_with_length (name d) 2"
    and "password d = None \<or> password d = Some []" and "matches_emailPattern (email d)"
  shows "returns (DRY_updateUser_ts i d w)"
  using assms
  by (cases "email d"; cases "name d";
      auto simp: returns_def manager_defs validation_defs formatting_defs
        matches_emailPattern_def)+

lemma short_password_on_update:
  assumes "present_with_length (email d) 5" and "present_with_length (name d) 2"
    and "password d = Some p" and "p \<noteq> []" and "length p < 8"
  shows "throws (WET_updateUser i d w) ''Password too short''"
    and "throws (DRY_updateUser i d w) ''Password too short''"
  using assms
  by (cases "email d"; cases "name d";
      auto simp: throws_def manager_defs validation_defs formatting_defs)+

lemma short_password_on_update_ts:
  assumes "present_with_length (email d) 5" and "present_with_length (name d) 2"
    and "password d = Some p" and "p \<noteq> []" and "length p < 8"
    and "matches_emailPattern (email d)"
  shows "throws (DRY_updateUser_ts i d w) ''Password too short''"
  using assms
  by (cases "email d"; cases "name d";
      auto simp: throws_def manager_defs validation_defs formatting_defs
        matches_emailPattern_def)+

lemma no_password_on_create:
  assumes "present_with_length (email d) 5" and "present_with_length (name d) 2"
    and "password d = None"
  shows "throws (WET_createUser d w) ''Password too short''"
    and "throws (DRY_createUser d w) ''Password too short''"
    and "matches_emailPattern (email d) \<Longrightarrow>
           throws (DRY_createUser_ts d w) ''Password too short''"
  using assms
  by (cases "email d"; cases "name d";
      auto simp: throws_def manager_defs validation_defs formatting_defs
        matches_emailPattern_def)+

text \<open>
  C8, amended. For data with a valid email and name (for the TypeScript
  \<open>UserManagerDRY\<close>: an email that also matches the pattern): without a password
  \<open>updateUser\<close> returns, while \<open>createUser\<close> throws \<open>Password too short\<close>; with a
  password that is not empty and shorter than 8 characters \<open>updateUser\<close> throws
  \<open>Password too short\<close>; an empty password is treated on update as no password.
\<close>

theorem password_required_on_create_only:
  "present_with_length (email d) 5 \<and> present_with_length (name d) 2 \<longrightarrow>
     (password d = None \<longrightarrow>
        returns (WET_updateUser i d w) \<and> returns (DRY_updateUser i d w) \<and>
        throws (WET_createUser d w) ''Password too short'' \<and>
        throws (DRY_createUser d w) ''Password too short'' \<and>
        (matches_emailPattern (email d) \<longrightarrow>
           returns (DRY_updateUser_ts i d w) \<and>
           throws (DRY_createUser_ts d w) ''Password too short'')) \<and>
     (password d = Some p \<and> p \<noteq> [] \<and> length p < 8 \<longrightarrow>
        throws (WET_updateUser i d w) ''Password too short'' \<and>
        throws (DRY_updateUser i d w) ''Password too short'' \<and>
        (matches_emailPattern (email d) \<longrightarrow>
           throws (DRY_updateUser_ts i d w) ''Password too short'')) \<and>
     (password d = Some [] \<longrightarrow>
        returns (WET_updateUser i d w) \<and> returns (DRY_updateUser i d w) \<and>
        (matches_emailPattern (email d) \<longrightarrow> returns (DRY_updateUser_ts i d w)))"
  by (simp add: no_password_on_update no_password_on_update_ts short_password_on_update
        short_password_on_update_ts no_password_on_create)

theorem password_required_on_create_only_witness:
  "returns (WET_updateUser ''u1'' no_password sample_world) \<and>
   returns (DRY_updateUser ''u1'' no_password sample_world) \<and>
   returns (DRY_updateUser_ts ''u1'' no_password sample_world) \<and>
   throws (WET_createUser no_password sample_world) ''Password too short'' \<and>
   throws (DRY_createUser no_password sample_world) ''Password too short'' \<and>
   throws (DRY_createUser_ts no_password sample_world) ''Password too short'' \<and>
   throws (WET_updateUser ''u1'' bob sample_world) ''Password too short'' \<and>
   throws (DRY_updateUser ''u1'' bob sample_world) ''Password too short'' \<and>
   throws (DRY_updateUser_ts ''u1'' bob sample_world) ''Password too short''"
proof -
  have n: "present_with_length (email no_password) 5"
    "present_with_length (name no_password) 2" "password no_password = None"
    "matches_emailPattern (email no_password)"
    by (simp_all add: no_password_def pattern_defs)
  have b: "present_with_length (email bob) 5" "present_with_length (name bob) 2"
    "password bob = Some ''short''" "matches_emailPattern (email bob)"
    by (simp_all add: bob_def pattern_defs)
  show ?thesis
    using password_required_on_create_only [of no_password "''u1''" sample_world "''short''"]
      password_required_on_create_only [of bob "''u1''" sample_world "''short''"] n b
    by simp
qed

section \<open>Identifier and timestamps\<close>

lemma create_timestamps:
  "fst (run a w) = Inr u \<Longrightarrow> userId_of a = None \<Longrightarrow> \<not> is_WET a \<Longrightarrow>
   createdAt u = Some (updatedAt u)"
  by (cases a; cases "email (data_of a)"; cases "name (data_of a)")
     (auto simp: manager_defs validation_defs formatting_defs split: if_splits)

lemma WET_create_timestamps:
  "fst (WET_createUser d w) = Inr u \<Longrightarrow>
   createdAt u = Some (clock w (clock_calls w)) \<and> updatedAt u = clock w (Suc (clock_calls w))"
  by (cases "email d"; cases "name d")
     (auto simp: manager_defs formatting_defs split: if_splits)

lemma update_keeps_id:
  "fst (run a w) = Inr u \<Longrightarrow> userId_of a = Some i \<Longrightarrow> i \<noteq> [] \<or> is_WET a \<Longrightarrow>
   createdAt u = None \<and> id' u = i"
  by (cases a; cases "email (data_of a)"; cases "name (data_of a)")
     (auto simp: manager_defs validation_defs formatting_defs split: if_splits)

text \<open>
  C9 fails as it is stated: \<open>formatUserData\<close> tells an update from a creation by the
  truthiness of \<open>userId\<close>, so \<open>updateUser\<close> with the empty string as \<open>userId\<close>
  returns a record with a generated id and with \<open>createdAt\<close>.
\<close>

theorem empty_userId_is_replaced:
  "fst (DRY_updateUser [] john sample_world) =
     Inr \<lparr>email = Some ''john@example.com'', name = Some ''John Doe'',
       password = Some ''password123'', id' = ''k3j9x2m1q'',
       createdAt = Some ''2024-01-01T00:00:00.000Z'',
       updatedAt = ''2024-01-01T00:00:00.000Z''\<rparr>"
  by code_simp

text \<open>
  C9, amended. A record returned by \<open>createUser\<close> of a manager other than
  \<open>UserManagerWET\<close> has a \<open>createdAt\<close> equal to its \<open>updatedAt\<close>; in
  \<open>UserManagerWET\<close> the two fields are two successive readings of the clock. A record
  returned by \<open>updateUser\<close> with a \<open>userId\<close> that is not empty (in
  \<open>UserManagerWET\<close>: with any \<open>userId\<close>) has no \<open>createdAt\<close> and has the
  \<open>userId\<close> as its id. Email, name and password are produced from the data in the
  same way by both operations.
\<close>

theorem createdAt_and_id:
  "fst (run a w) = Inr u \<longrightarrow>
     (userId_of a = None \<and> \<not> is_WET a \<longrightarrow> createdAt u = Some (updatedAt u)) \<and>
     (a = WET_create (data_of a) \<longrightarrow>
        createdAt u = Some (clock w (clock_calls w)) \<and>
        updatedAt u = clock w (Suc (clock_calls w))) \<and>
     (userId_of a = Some i \<and> (i \<noteq> [] \<or> is_WET a) \<longrightarrow> createdAt u = None \<and> id' u = i) \<and>
     (fst (run b w') = Inr u' \<and> data_of b = data_of a \<longrightarrow>
        email u' = email u \<and> name u' = name u \<and> password u' = password u)"
proof -
  have "a = WET_create (data_of a) \<Longrightarrow> fst (WET_createUser (data_of a) w) = fst (run a w)"
    by (cases a) simp_all
  then show ?thesis
    using create_timestamps [of a w u] update_keeps_id [of a w u i]
      run_fields [of a w u] run_fields [of b w' u']
      WET_create_timestamps [of "data_of a" w u]
    by auto
qed

lemma run_john: "fst (run (DRY_create john) sample_world) = Inr john_created"
  by code_simp

lemma run_john_update: "fst (run (DRY_update ''u1'' john) later_world) = Inr john_updated"
  by code_simp

theorem createdAt_and_id_witness:
  "fst (run (DRY_create john) sample_world) = Inr john_created \<and>
   createdAt john_created = Some (updatedAt john_created) \<and>
   fst (run (DRY_update ''u1'' john) later_world) = Inr john_updated \<and>
   createdAt john_updated = None \<and> id' john_updated = ''u1'' \<and>
   email john_updated = email john_created \<and> name john_updated = name john_created \<and>
   password john_updated = password john_created"
  using createdAt_and_id [of "DRY_create john" sample_world john_created "''u1''"
      "DRY_update ''u1'' john" later_world john_updated]
    createdAt_and_id [of "DRY_update ''u1'' john" later_world john_updated "''u1''"
      "DRY_create john" sample_world john_created]
    run_john run_john_update
  by simp

section \<open>With and without duplication\<close>

lemma WET_DRY_create: "visible (fst (WET_createUser d w)) = visible (fst (DRY_createUser d w))"
  by (cases "email d"; cases "name d")
     (auto simp: visible_def manager_defs validation_defs formatting_defs)

lemma WET_DRY_update:
  "visible (fst (WET_updateUser i d w)) = visible (fst (DRY_updateUser i d w))"
  by (cases "email d"; cases "name d")
     (auto simp: visible_def manager_defs validation_defs formatting_defs)

lemma WET_DRY_create_ts:
  "absent_or_shorter (email d) 5 \<or> matches_emailPattern (email d) \<Longrightarrow>
   visible (fst (WET_createUser d w)) = visible (fst (DRY_createUser_ts d w))"
  by (cases "email d"; cases "name d"; cases "password d")
     (auto simp: visible_def manager_defs validation_defs formatting_defs
        matches_emailPattern_def)

lemma WET_DRY_update_ts:
  "absent_or_shorter (email d) 5 \<or> matches_emailPattern (email d) \<Longrightarrow>
   visible (fst (WET_updateUser i d w)) = visible (fst (DRY_updateUser_ts i d w))"
  by (cases "email d"; cases "name d"; cases "password d")
     (auto simp: visible_def manager_defs validation_defs formatting_defs
        matches_emailPattern_def)

lemma format_on_update:
  "present_with_length (email d) 5 \<Longrightarrow> \<not> matches_emailPattern (email d) \<Longrightarrow>
   throws (DRY_updateUser_ts i d w) ''Invalid email format''"
  by (cases "email d")
     (auto simp: throws_def manager_defs validation_defs matches_emailPattern_def)

lemma format_on_create:
  "present_with_length (email d) 5 \<Longrightarrow> \<not> matches_emailPattern (email d) \<Longrightarrow>
   throws (DRY_createUser_ts d w) ''Invalid email format''"
  by (cases "email d")
     (auto simp: throws_def manager_defs validation_defs matches_emailPattern_def)

text \<open>
  C10 fails as it is stated: in TypeScript \<open>UserManagerWET\<close> accepts an email that
  \<open>UserManagerDRY\<close> rejects for its format.
\<close>

theorem pattern_separates_WET_and_DRY:
  "returns (WET_createUser plain sample_world) \<and>
   throws (DRY_createUser_ts plain sample_world) ''Invalid email format''"
  by code_simp

text \<open>
  C10, amended. In JavaScript \<open>UserManagerWET\<close> and \<open>UserManagerDRY\<close> are
  equivalent: for every \<open>userData\<close>, \<open>createUser\<close> of the one throws exactly when
  \<open>createUser\<close> of the other does, with the same error, and the records they return
  have the same email, name and password; the same holds for \<open>updateUser\<close>. In
  TypeScript this holds for every \<open>userData\<close> whose email fails the length check or
  matches \<open>emailPattern\<close>; for an email that is long enough and does not match,
  \<open>UserManagerDRY\<close> throws \<open>Invalid email format\<close>.
\<close>

theorem WET_and_DRY_agree:
  "visible (fst (WET_createUser d w)) = visible (fst (DRY_createUser d w)) \<and>
   visible (fst (WET_updateUser i d w)) = visible (fst (DRY_updateUser i d w)) \<and>
   (absent_or_shorter (email d) 5 \<or> matches_emailPattern (email d) \<longrightarrow>
      visible (fst (WET_createUser d w)) = visible (fst (DRY_createUser_ts d w)) \<and>
      visible (fst (WET_updateUser i d w)) = visible (fst (DRY_updateUser_ts i d w))) \<and>
   (present_with_length (email d) 5 \<and> \<not> matches_emailPattern (email d) \<longrightarrow>
      throws (DRY_createUser_ts d w) ''Invalid email format'' \<and>
      throws (DRY_updateUser_ts i d w) ''Invalid email format'')"
  using WET_DRY_create [of d w] WET_DRY_update [of i d w] WET_DRY_create_ts [of d w]
    WET_DRY_update_ts [of d i w] format_on_create [of d w] format_on_update [of d i w]
  by blast

theorem WET_and_DRY_agree_witness:
  "visible (fst (WET_createUser john sample_world)) =
     visible (fst (DRY_createUser_ts john sample_world)) \<and>
   visible (fst (WET_updateUser ''u1'' john sample_world)) =
     visible (fst (DRY_updateUser_ts ''u1'' john sample_world)) \<and>
   throws (DRY_updateUser_ts ''u1'' plain sample_world) ''Invalid email format''"
proof -
  have "matches_emailPattern (email john)" "present_with_length (email plain) 5"
    "\<not> matches_emailPattern (email plain)"
    by (simp_all add: john_def plain_def pattern_defs)
  then show ?thesis
    using WET_and_DRY_agree [of john sample_world "''u1''"]
      WET_and_DRY_agree [of plain sample_world "''u1''"]
    by blast
qed

end
